theory Spec2Isabelle
  imports Complex_Main
begin

section \<open>Data model (models.py)\<close>

text \<open>
  Python's \<open>float\<close> values are idealised as \<^typ>\<open>real\<close> numbers: every claim below is about
  which quantities are combined and in which order, not about binary rounding error, so
  NaN, infinities and the last-bit error of a float operation are left out.

  A \<open>datetime.date\<close> is its proleptic Gregorian ordinal (\<open>date.toordinal()\<close>), an integer
  between 1 (0001-01-01) and 3652059 (9999-12-31); \<open>(a - b).days\<close> is the difference of
  the ordinals, and \<open>d + timedelta(days=n)\<close> raises \<open>OverflowError\<close> outside that range.
\<close>

type_synonym date = int

definition date_min :: date where
  "date_min = 1"

definition date_max :: date where
  "date_max = 3652059"

datatype error =
    OverflowError
  | ValidationError string
  | ValueError string

definition date_add :: "date \<Rightarrow> int \<Rightarrow> error + date" where
  "date_add d n = (if date_min \<le> d + n \<and> d + n \<le> date_max then Inr (d + n) else Inl OverflowError)"

record TaxLot =
  symbol :: string
  shares :: real
  buy_date :: date
  cost_basis_per_share :: real

record RecentBuy =
  rb_date :: date
  rb_symbol :: string
  rb_shares :: real

record MarketData =
  asof :: date
  prices :: "string \<rightharpoonup> real"

definition price :: "MarketData \<Rightarrow> string \<Rightarrow> real option" where
  "price market s = prices market s"

text \<open>
  \<open>recommended_alternatives\<close> is a dict that \<open>safe_alternatives\<close> also iterates in insertion
  order, so it is an association list (keys in insertion order); \<open>.get\<close> is \<^const>\<open>map_of\<close>.
\<close>

record ReplacementPolicy =
  prohibited_equivalents :: "string list list"
  recommended_alternatives :: "(string \<times> string list) list"

text \<open>
  The two messages that \<open>_is_blocked\<close> and \<open>build_plan\<close> produce, and the empty string.
  \<open>Recent_buy_triggers d s\<close> stands for the formatted string
  \<^verbatim>\<open>f"Recent buy on {d.isoformat()} for {s} triggers 30-day window"\<close>.
\<close>

datatype reason =
    No_reason
  | Recent_buy_triggers date string
  | No_safe_replacement

record HarvestItem =
  it_symbol :: string
  lot_index :: nat
  shares_to_sell :: real
  sale_price :: real
  loss_dollars :: real
  replacement_symbol :: "string option"
  replacement_shares :: "real option"
  replacement_price :: "real option"
  sale_date :: date
  reentry_date_ok_after :: date
  wash_sale_blocked :: bool
  block_reason :: "reason option"
  notes_opt :: "string option"

text \<open>Constructing a \<open>HarvestItem\<close> runs the field validator \<open>loss_positive\<close>.\<close>

definition loss_positive :: "real \<Rightarrow> error + real" where
  "loss_positive v = (if v < 0 then Inl (ValidationError ''loss_dollars must be >= 0'') else Inr v)"

definition HarvestItem_init :: "HarvestItem \<Rightarrow> error + HarvestItem" where
  "HarvestItem_init it =
     (case loss_positive (loss_dollars it) of
        Inl e \<Rightarrow> Inl e
      | Inr v \<Rightarrow> Inr (it\<lparr>loss_dollars := v\<rparr>))"

record HarvestPlan =
  plan_asof :: date
  items :: "HarvestItem list"
  total_harvestable_loss :: real
  simulated_cash_delta :: real
  policy_version :: string

subsection \<open>ReplacementPolicy\<close>

fun cluster_for_loop :: "string list list \<Rightarrow> string \<Rightarrow> string set" where
  "cluster_for_loop [] s = {s}"
| "cluster_for_loop (cluster # rest) s =
     (if s \<in> set cluster then set cluster else cluster_for_loop rest s)"

definition cluster_for :: "ReplacementPolicy \<Rightarrow> string \<Rightarrow> string set" where
  "cluster_for pol s = cluster_for_loop (prohibited_equivalents pol) s"

text \<open>The \<open>for s, lst in ... items()\<close> loop with its \<open>break\<close>; \<open>alts\<close> is empty on entry.\<close>

fun safe_alternatives_loop ::
  "ReplacementPolicy \<Rightarrow> string \<Rightarrow> (string \<times> string list) list \<Rightarrow> string list" where
  "safe_alternatives_loop pol s [] = []"
| "safe_alternatives_loop pol s ((s', lst) # rest) =
     (if s \<in> cluster_for pol s' then lst else safe_alternatives_loop pol s rest)"

definition safe_alternatives :: "ReplacementPolicy \<Rightarrow> string \<Rightarrow> string list" where
  "safe_alternatives pol s =
     (let cluster = cluster_for pol s;
          alts = (case map_of (recommended_alternatives pol) s of None \<Rightarrow> [] | Some lst \<Rightarrow> lst);
          alts = (if alts = [] then safe_alternatives_loop pol s (recommended_alternatives pol)
                  else alts)
      in filter (\<lambda>a. a \<notin> cluster) alts)"

section \<open>The navigator (logic.py)\<close>

text \<open>
  \<open>round(x, n)\<close> on the idealised numbers: the nearest multiple of \<open>10 ^ -n\<close>, a tie going to
  the even one.
\<close>

definition round_half_even :: "real \<Rightarrow> int" where
  "round_half_even x =
     (let f = \<lfloor>x\<rfloor>; d = x - of_int f
      in if d < 1 / 2 then f else if 1 / 2 < d then f + 1 else if even f then f else f + 1)"

definition round_py :: "real \<Rightarrow> nat \<Rightarrow> real" where
  "round_py x n = of_int (round_half_even (x * 10 ^ n)) / 10 ^ n"

record WashSaleNavigator =
  policy :: ReplacementPolicy
  min_loss_dollars :: real
  min_loss_pct :: real

fun is_blocked_loop :: "string set \<Rightarrow> date \<Rightarrow> RecentBuy list \<Rightarrow> bool \<times> reason" where
  "is_blocked_loop cluster sd [] = (False, No_reason)"
| "is_blocked_loop cluster sd (rb # buys) =
     (if rb_symbol rb \<in> cluster \<and> 0 \<le> sd - rb_date rb \<and> sd - rb_date rb \<le> 30
      then (True, Recent_buy_triggers (rb_date rb) (rb_symbol rb))
      else is_blocked_loop cluster sd buys)"

definition is_blocked ::
  "WashSaleNavigator \<Rightarrow> string \<Rightarrow> date \<Rightarrow> RecentBuy list \<Rightarrow> bool \<times> reason" where
  "is_blocked nav s sd buys = is_blocked_loop (cluster_for (policy nav) s) sd buys"

fun pick_replacement_loop ::
  "real \<Rightarrow> MarketData \<Rightarrow> string list \<Rightarrow> string option \<times> real option \<times> real option" where
  "pick_replacement_loop proceeds market [] = (None, None, None)"
| "pick_replacement_loop proceeds market (alt # alts) =
     (case price market alt of
        None \<Rightarrow> pick_replacement_loop proceeds market alts
      | Some px \<Rightarrow>
          if px \<noteq> 0 \<and> px > 1 / 100 then (Some alt, Some (proceeds / px), Some px)
          else pick_replacement_loop proceeds market alts)"

definition pick_replacement ::
  "WashSaleNavigator \<Rightarrow> string \<Rightarrow> real \<Rightarrow> MarketData \<Rightarrow>
   string option \<times> real option \<times> real option" where
  "pick_replacement nav s proceeds market =
     pick_replacement_loop proceeds market (safe_alternatives (policy nav) s)"

text \<open>The two quantities the thresholds are compared with, for a lot whose price is \<open>px\<close>.\<close>

definition loss_total :: "TaxLot \<Rightarrow> real \<Rightarrow> real" where
  "loss_total lot px =
     (let pnl = px - cost_basis_per_share lot
      in (if pnl < 0 then - pnl else 0) * shares lot)"

definition loss_pct :: "TaxLot \<Rightarrow> real \<Rightarrow> real" where
  "loss_pct lot px =
     (if cost_basis_per_share lot > 0
      then (cost_basis_per_share lot - px) / max (cost_basis_per_share lot) (1 / 10 ^ 9)
      else 0)"

text \<open>
  One iteration of the loop of \<open>build_plan\<close> on the state \<open>(items, total_loss, cash_delta)\<close>;
  \<open>continue\<close> returns the state unchanged.
\<close>

definition loop_body ::
  "WashSaleNavigator \<Rightarrow> MarketData \<Rightarrow> RecentBuy list \<Rightarrow> date \<Rightarrow> nat \<times> TaxLot \<Rightarrow>
   HarvestItem list \<times> real \<times> real \<Rightarrow> error + (HarvestItem list \<times> real \<times> real)" where
  "loop_body nav market buys today il st =
     (case il of (idx, lot) \<Rightarrow>
      case st of (its, total_loss, cash_delta) \<Rightarrow>
      case price market (symbol lot) of
        None \<Rightarrow> Inr st
      | Some px \<Rightarrow>
          if loss_total lot px < min_loss_dollars nav \<or> loss_pct lot px < min_loss_pct nav
          then Inr st
          else
            (case is_blocked nav (symbol lot) today buys of (blocked0, reason0) \<Rightarrow>
             let proceeds = shares lot * px in
             case (if \<not> blocked0 then pick_replacement nav (symbol lot) proceeds market
                   else (None, None, None)) of (repl_symbol, repl_shares, repl_price) \<Rightarrow>
             case (if \<not> blocked0 \<and> repl_symbol = None then (True, No_safe_replacement)
                   else (blocked0, reason0)) of (blocked, reason) \<Rightarrow>
             case date_add today 31 of
               Inl e \<Rightarrow> Inl e
             | Inr reentry \<Rightarrow>
                (case HarvestItem_init
                   \<lparr>it_symbol = symbol lot,
                    lot_index = idx,
                    shares_to_sell = round_py (shares lot) 6,
                    sale_price = px,
                    loss_dollars = round_py (loss_total lot px) 2,
                    replacement_symbol = repl_symbol,
                    replacement_shares = map_option (\<lambda>q. round_py q 6) repl_shares,
                    replacement_price = repl_price,
                    sale_date = today,
                    reentry_date_ok_after = reentry,
                    wash_sale_blocked = blocked,
                    block_reason = (if blocked then Some reason else None),
                    notes_opt = None\<rparr> of
                   Inl e \<Rightarrow> Inl e
                 | Inr item \<Rightarrow>
                     if \<not> blocked
                     then
                       (let repl_cost = (case repl_shares of None \<Rightarrow> 0 | Some q \<Rightarrow> q)
                                        * (case repl_price of None \<Rightarrow> 0 | Some p \<Rightarrow> p)
                        in Inr (its @ [item],
                                total_loss + loss_dollars item,
                                cash_delta + (proceeds - repl_cost)))
                     else Inr (its @ [item], total_loss, cash_delta))))"

fun build_plan_loop ::
  "WashSaleNavigator \<Rightarrow> MarketData \<Rightarrow> RecentBuy list \<Rightarrow> date \<Rightarrow> (nat \<times> TaxLot) list \<Rightarrow>
   HarvestItem list \<times> real \<times> real \<Rightarrow> error + (HarvestItem list \<times> real \<times> real)" where
  "build_plan_loop nav market buys today [] st = Inr st"
| "build_plan_loop nav market buys today (il # ils) st =
     (case loop_body nav market buys today il st of
        Inl e \<Rightarrow> Inl e
      | Inr st' \<Rightarrow> build_plan_loop nav market buys today ils st')"

text \<open>The sanity validation over \<open>plan.items\<close>; \<open>None in cluster\<close> is false.\<close>

fun validate_items :: "WashSaleNavigator \<Rightarrow> HarvestItem list \<Rightarrow> error + unit" where
  "validate_items nav [] = Inr ()"
| "validate_items nav (it # its) =
     (if \<not> wash_sale_blocked it then
        (if (case replacement_symbol it of
               None \<Rightarrow> False
             | Some r \<Rightarrow> r \<in> cluster_for (policy nav) (it_symbol it))
         then Inl (ValueError ''Replacement is substantially identical'')
         else if reentry_date_ok_after it - sale_date it < 31
         then Inl (ValueError ''Re-entry date violates 31-day rule'')
         else validate_items nav its)
      else validate_items nav its)"

definition build_plan ::
  "WashSaleNavigator \<Rightarrow> TaxLot list \<Rightarrow> MarketData \<Rightarrow> RecentBuy list \<Rightarrow> error + HarvestPlan" where
  "build_plan nav lots market buys =
     (let today = asof market in
      case build_plan_loop nav market buys today (enumerate 0 lots) ([], 0, 0) of
        Inl e \<Rightarrow> Inl e
      | Inr (its, total_loss, cash_delta) \<Rightarrow>
          (let plan = \<lparr>plan_asof = today,
                       items = its,
                       total_harvestable_loss = round_py total_loss 2,
                       simulated_cash_delta = round_py cash_delta 2,
                       policy_version = ''demo-1''\<rparr>
           in case validate_items nav (items plan) of
                Inl e \<Rightarrow> Inl e
              | Inr _ \<Rightarrow> Inr plan))"

section \<open>The loop with the quotient left open\<close>

text \<open>
  Python's \<open>/\<close> on floats returns a rounded quotient, so that \<open>(proceeds / px) * px\<close>, which the
  loop subtracts from \<open>proceeds\<close>, need not be \<open>proceeds\<close>. The functions of this section are
  \<open>_pick_replacement\<close> and \<open>build_plan\<close> once more, with the operation that computes
  \<open>qty = proceeds / px\<close> as a parameter \<open>dv\<close> and everything else as above. With the exact
  quotient for \<open>dv\<close> they are the functions above.
\<close>

fun pick_replacement_loop_with ::
  "(real \<Rightarrow> real \<Rightarrow> real) \<Rightarrow> real \<Rightarrow> MarketData \<Rightarrow> string list \<Rightarrow>
   string option \<times> real option \<times> real option" where
  "pick_replacement_loop_with dv proceeds market [] = (None, None, None)"
| "pick_replacement_loop_with dv proceeds market (alt # alts) =
     (case price market alt of
        None \<Rightarrow> pick_replacement_loop_with dv proceeds market alts
      | Some px \<Rightarrow>
          if px \<noteq> 0 \<and> px > 1 / 100 then (Some alt, Some (dv proceeds px), Some px)
          else pick_replacement_loop_with dv proceeds market alts)"

definition pick_replacement_with ::
  "(real \<Rightarrow> real \<Rightarrow> real) \<Rightarrow> WashSaleNavigator \<Rightarrow> string \<Rightarrow> real \<Rightarrow> MarketData \<Rightarrow>
   string option \<times> real option \<times> real option" where
  "pick_replacement_with dv nav s proceeds market =
     pick_replacement_loop_with dv proceeds market (safe_alternatives (policy nav) s)"

definition loop_body_with ::
  "(real \<Rightarrow> real \<Rightarrow> real) \<Rightarrow> WashSaleNavigator \<Rightarrow> MarketData \<Rightarrow> RecentBuy list \<Rightarrow> date \<Rightarrow>
   nat \<times> TaxLot \<Rightarrow> HarvestItem list \<times> real \<times> real \<Rightarrow>
   error + (HarvestItem list \<times> real \<times> real)" where
  "loop_body_with dv nav market buys today il st =
     (case il of (idx, lot) \<Rightarrow>
      case st of (its, total_loss, cash_delta) \<Rightarrow>
      case price market (symbol lot) of
        None \<Rightarrow> Inr st
      | Some px \<Rightarrow>
          if loss_total lot px < min_loss_dollars nav \<or> loss_pct lot px < min_loss_pct nav
          then Inr st
          else
            (case is_blocked nav (symbol lot) today buys of (blocked0, reason0) \<Rightarrow>
             let proceeds = shares lot * px in
             case (if \<not> blocked0 then pick_replacement_with dv nav (symbol lot) proceeds market
                   else (None, None, None)) of (repl_symbol, repl_shares, repl_price) \<Rightarrow>
             case (if \<not> blocked0 \<and> repl_symbol = None then (True, No_safe_replacement)
                   else (blocked0, reason0)) of (blocked, reason) \<Rightarrow>
             case date_add today 31 of
               Inl e \<Rightarrow> Inl e
             | Inr reentry \<Rightarrow>
                (case HarvestItem_init
                   \<lparr>it_symbol = symbol lot,
                    lot_index = idx,
                    shares_to_sell = round_py (shares lot) 6,
                    sale_price = px,
                    loss_dollars = round_py (loss_total lot px) 2,
                    replacement_symbol = repl_symbol,
                    replacement_shares = map_option (\<lambda>q. round_py q 6) repl_shares,
                    replacement_price = repl_price,
                    sale_date = today,
                    reentry_date_ok_after = reentry,
                    wash_sale_blocked = blocked,
                    block_reason = (if blocked then Some reason else None),
                    notes_opt = None\<rparr> of
                   Inl e \<Rightarrow> Inl e
                 | Inr item \<Rightarrow>
                     if \<not> blocked
                     then
                       (let repl_cost = (case repl_shares of None \<Rightarrow> 0 | Some q \<Rightarrow> q)
                                        * (case repl_price of None \<Rightarrow> 0 | Some p \<Rightarrow> p)
                        in Inr (its @ [item],
                                total_loss + loss_dollars item,
                                cash_delta + (proceeds - repl_cost)))
                     else Inr (its @ [item], total_loss, cash_delta))))"

fun build_plan_loop_with ::
  "(real \<Rightarrow> real \<Rightarrow> real) \<Rightarrow> WashSaleNavigator \<Rightarrow> MarketData \<Rightarrow> RecentBuy list \<Rightarrow> date \<Rightarrow>
   (nat \<times> TaxLot) list \<Rightarrow> HarvestItem list \<times> real \<times> real \<Rightarrow>
   error + (HarvestItem list \<times> real \<times> real)" where
  "build_plan_loop_with dv nav market buys today [] st = Inr st"
| "build_plan_loop_with dv nav market buys today (il # ils) st =
     (case loop_body_with dv nav market buys today il st of
        Inl e \<Rightarrow> Inl e
      | Inr st' \<Rightarrow> build_plan_loop_with dv nav market buys today ils st')"

definition build_plan_with ::
  "(real \<Rightarrow> real \<Rightarrow> real) \<Rightarrow> WashSaleNavigator \<Rightarrow> TaxLot list \<Rightarrow> MarketData \<Rightarrow>
   RecentBuy list \<Rightarrow> error + HarvestPlan" where
  "build_plan_with dv nav lots market buys =
     (let today = asof market in
      case build_plan_loop_with dv nav market buys today (enumerate 0 lots) ([], 0, 0) of
        Inl e \<Rightarrow> Inl e
      | Inr (its, total_loss, cash_delta) \<Rightarrow>
          (let plan = \<lparr>plan_asof = today,
                       items = its,
                       total_harvestable_loss = round_py total_loss 2,
                       simulated_cash_delta = round_py cash_delta 2,
                       policy_version = ''demo-1''\<rparr>
           in case validate_items nav (items plan) of
                Inl e \<Rightarrow> Inl e
              | Inr _ \<Rightarrow> Inr plan))"

section \<open>Derived notions used in the proofs\<close>

definition cents :: "real \<Rightarrow> bool" where
  "cents x = (\<exists>k::int. x = of_int k / 100)"

definition emit ::
  "WashSaleNavigator \<Rightarrow> MarketData \<Rightarrow> RecentBuy list \<Rightarrow> date \<Rightarrow> nat \<times> TaxLot \<Rightarrow>
   (HarvestItem \<times> real \<times> real) option" where
  "emit nav market buys today il =
     (case price market (symbol (snd il)) of
        None \<Rightarrow> None
      | Some px \<Rightarrow>
          if loss_total (snd il) px < min_loss_dollars nav \<or> loss_pct (snd il) px < min_loss_pct nav
          then None
          else
            (let lot = snd il;
                 b0 = fst (is_blocked nav (symbol lot) today buys);
                 r0 = snd (is_blocked nav (symbol lot) today buys);
                 proceeds = shares lot * px;
                 repl = (if b0 then (None, None, None)
                         else pick_replacement nav (symbol lot) proceeds market);
                 blocked = (b0 \<or> fst repl = None)
             in Some (\<lparr>it_symbol = symbol lot,
                       lot_index = fst il,
                       shares_to_sell = round_py (shares lot) 6,
                       sale_price = px,
                       loss_dollars = round_py (loss_total lot px) 2,
                       replacement_symbol = fst repl,
                       replacement_shares = map_option (\<lambda>q. round_py q 6) (fst (snd repl)),
                       replacement_price = snd (snd repl),
                       sale_date = today,
                       reentry_date_ok_after = today + 31,
                       wash_sale_blocked = blocked,
                       block_reason =
                         (if b0 then Some r0
                          else if fst repl = None then Some No_safe_replacement else None),
                       notes_opt = None\<rparr>,
                      if blocked then 0 else round_py (loss_total lot px) 2,
                      if blocked then 0
                      else proceeds - (case fst (snd repl) of None \<Rightarrow> 0 | Some q \<Rightarrow> q)
                                      * (case snd (snd repl) of None \<Rightarrow> 0 | Some p \<Rightarrow> p))))"

definition advance ::
  "HarvestItem list \<times> real \<times> real \<Rightarrow> (HarvestItem \<times> real \<times> real) option \<Rightarrow>
   HarvestItem list \<times> real \<times> real" where
  "advance st r =
     (case r of
        None \<Rightarrow> st
      | Some (it, dl, dc) \<Rightarrow> (fst st @ [it], fst (snd st) + dl, snd (snd st) + dc))"

definition emitted ::
  "WashSaleNavigator \<Rightarrow> MarketData \<Rightarrow> RecentBuy list \<Rightarrow> date \<Rightarrow> (nat \<times> TaxLot) list \<Rightarrow>
   (HarvestItem \<times> real \<times> real) list" where
  "emitted nav market buys today ils = List.map_filter (emit nav market buys today) ils"

definition in_window :: "string set \<Rightarrow> date \<Rightarrow> RecentBuy \<Rightarrow> bool" where
  "in_window cluster sd rb =
     (rb_symbol rb \<in> cluster \<and> 0 \<le> sd - rb_date rb \<and> sd - rb_date rb \<le> 30)"

definition usable :: "MarketData \<Rightarrow> string \<Rightarrow> bool" where
  "usable market a = (case price market a of None \<Rightarrow> False | Some px \<Rightarrow> 1 / 100 < px)"

definition proceeds_of :: "TaxLot list \<Rightarrow> HarvestItem \<Rightarrow> real" where
  "proceeds_of lots it = shares (lots ! lot_index it) * sale_price it"

definition cash_term_with :: "(real \<Rightarrow> real \<Rightarrow> real) \<Rightarrow> TaxLot list \<Rightarrow> HarvestItem \<Rightarrow> real" where
  "cash_term_with dv lots it =
     proceeds_of lots it
     - (case replacement_price it of None \<Rightarrow> 0 | Some rp \<Rightarrow> dv (proceeds_of lots it) rp * rp)"

definition step_term :: "(real \<Rightarrow> real \<Rightarrow> real) \<Rightarrow> TaxLot \<Rightarrow> HarvestItem \<Rightarrow> real" where
  "step_term dv lot it =
     shares lot * sale_price it
     - (case replacement_price it of None \<Rightarrow> 0
        | Some rp \<Rightarrow> dv (shares lot * sale_price it) rp * rp)"

definition sells_whole_lot ::
  "(real \<Rightarrow> real \<Rightarrow> real) \<Rightarrow> MarketData \<Rightarrow> TaxLot list \<Rightarrow> HarvestItem \<Rightarrow> bool" where
  "sells_whole_lot dv market lots it =
     (lot_index it < length lots
      \<and> it_symbol it = symbol (lots ! lot_index it)
      \<and> shares_to_sell it = round_py (shares (lots ! lot_index it)) 6
      \<and> price market (symbol (lots ! lot_index it)) = Some (sale_price it)
      \<and> (\<not> wash_sale_blocked it \<longrightarrow>
           (\<exists>rp. replacement_price it = Some rp
              \<and> replacement_shares it = Some (round_py (dv (proceeds_of lots it) rp) 6))))"

section \<open>Concrete inputs\<close>

definition demo_policy :: ReplacementPolicy where
  "demo_policy =
     \<lparr>prohibited_equivalents =
        [ [''SPY'', ''IVV'', ''VOO''], [''QQQ'', ''QQQM''], [''VTI'', ''ITOT'', ''SCHB''] ],
      recommended_alternatives =
        [(''SPY'', [''VTI'', ''SCHX'', ''ITOT'']),
         (''IVV'', [''VTI'', ''SCHX'', ''ITOT'']),
         (''VOO'', [''VTI'', ''SCHX'', ''ITOT'']),
         (''QQQ'', [''SCHG'', ''XLK'', ''IYW'']),
         (''QQQM'', [''SCHG'', ''XLK'', ''IYW'']),
         (''VTI'', [''SCHX'', ''VTV'', ''SCHF'']),
         (''ITOT'', [''SCHX'', ''VTV'', ''SCHF'']),
         (''SCHB'', [''SCHX'', ''VTV'', ''SCHF'']),
         (''AAPL'', [''XLK'', ''VGT'']),
         (''TSLA'', [''XLY'', ''CARZ'', ''DRIV'']),
         (''NVDA'', [''SOXX'', ''SMH''])]\<rparr>"

definition ex_nav :: WashSaleNavigator where
  "ex_nav = \<lparr>policy = demo_policy, min_loss_dollars = 200, min_loss_pct = 5 / 100\<rparr>"

definition ex_market :: MarketData where
  "ex_market =
     \<lparr>asof = 739252,
      prices = [''SPY'' \<mapsto> 400, ''AAPL'' \<mapsto> 250, ''XLK'' \<mapsto> 30000, ''TSLA'' \<mapsto> 245]\<rparr>"

definition ex_lots :: "TaxLot list" where
  "ex_lots =
     [\<lparr>symbol = ''SPY'', shares = 50, buy_date = 739132, cost_basis_per_share = 520\<rparr>,
      \<lparr>symbol = ''AAPL'', shares = 40, buy_date = 738852, cost_basis_per_share = 300\<rparr>,
      \<lparr>symbol = ''TSLA'', shares = 20, buy_date = 739182, cost_basis_per_share = 270\<rparr>]"

definition ex_buy :: RecentBuy where
  "ex_buy = \<lparr>rb_date = 739237, rb_symbol = ''VOO'', rb_shares = 5\<rparr>"

definition ex_plan :: HarvestPlan where
  "ex_plan =
     \<lparr>plan_asof = 739252,
      items =
        [\<lparr>it_symbol = ''SPY'', lot_index = 0, shares_to_sell = 50, sale_price = 400,
          loss_dollars = 6000, replacement_symbol = None, replacement_shares = None,
          replacement_price = None, sale_date = 739252, reentry_date_ok_after = 739283,
          wash_sale_blocked = True,
          block_reason = Some (Recent_buy_triggers 739237 ''VOO''), notes_opt = None\<rparr>,
         \<lparr>it_symbol = ''AAPL'', lot_index = 1, shares_to_sell = 40, sale_price = 250,
          loss_dollars = 2000, replacement_symbol = Some ''XLK'',
          replacement_shares = Some (333333 / 1000000),
          replacement_price = Some 30000, sale_date = 739252, reentry_date_ok_after = 739283,
          wash_sale_blocked = False, block_reason = None, notes_opt = None\<rparr>,
         \<lparr>it_symbol = ''TSLA'', lot_index = 2, shares_to_sell = 20, sale_price = 245,
          loss_dollars = 500, replacement_symbol = None, replacement_shares = None,
          replacement_price = None, sale_date = 739252, reentry_date_ok_after = 739283,
          wash_sale_blocked = True,
          block_reason = Some No_safe_replacement, notes_opt = None\<rparr>],
      total_harvestable_loss = 2000,
      simulated_cash_delta = 0,
      policy_version = ''demo-1''\<rparr>"

definition item_cash_delta :: "HarvestItem \<Rightarrow> real" where
  "item_cash_delta it =
     shares_to_sell it * sale_price it
     - (case replacement_shares it of None \<Rightarrow> 0 | Some q \<Rightarrow> q)
       * (case replacement_price it of None \<Rightarrow> 0 | Some p \<Rightarrow> p)"

definition ex_plan_no_buys :: HarvestPlan where
  "ex_plan_no_buys =
     ex_plan\<lparr>items :=
       (items ex_plan)[0 := (items ex_plan ! 0)\<lparr>block_reason := Some No_safe_replacement\<rparr>]\<rparr>"

definition neg_nav :: WashSaleNavigator where
  "neg_nav = \<lparr>policy = demo_policy, min_loss_dollars = - 100, min_loss_pct = 5 / 100\<rparr>"

definition neg_lot :: TaxLot where
  "neg_lot = \<lparr>symbol = ''AAPL'', shares = - 1, buy_date = 738852, cost_basis_per_share = 300\<rparr>"

definition far_market :: MarketData where
  "far_market = ex_market\<lparr>asof := 3652040\<rparr>"

definition round6_quotient :: "real \<Rightarrow> real \<Rightarrow> real" where
  "round6_quotient x y = round_py (x / y) 6"

definition ex_plan_round6 :: HarvestPlan where
  "ex_plan_round6 = ex_plan\<lparr>simulated_cash_delta := 1 / 100\<rparr>"

definition pair_policy :: ReplacementPolicy where
  "pair_policy =
     \<lparr>prohibited_equivalents = [ [''A'', ''B''] ],
      recommended_alternatives = [(''C'', [''D'']), (''B'', [''A'', ''C''])]\<rparr>"

section \<open>Auxiliary lemmas\<close>

lemma round_half_even_of_int: "round_half_even (of_int k) = k"
  by (simp add: round_half_even_def)

lemma round_half_even_nonneg: "0 \<le> x \<Longrightarrow> 0 \<le> round_half_even x"
  by (auto simp: round_half_even_def Let_def)

lemma round_py_nonneg: "0 \<le> x \<Longrightarrow> 0 \<le> round_py x n"
  by (simp add: round_py_def round_half_even_nonneg)

lemma cents_round_py: "cents (round_py x 2)"
  unfolding cents_def round_py_def by auto

lemma cents_0: "cents 0"
  unfolding cents_def by (rule exI [of _ 0]) simp

lemma cents_add: "cents x \<Longrightarrow> cents y \<Longrightarrow> cents (x + y)"
  unfolding cents_def
proof (elim exE)
  fix k l :: int
  assume "x = of_int k / 100" "y = of_int l / 100"
  then have "x + y = of_int (k + l) / 100" by (simp add: add_divide_distrib)
  then show "\<exists>m::int. x + y = of_int m / 100" by blast
qed

lemma round_py_cents: "cents x \<Longrightarrow> round_py x 2 = x"
  unfolding cents_def round_py_def by (auto simp: round_half_even_of_int)

lemma cents_sum_list: "(\<forall>x\<in>set xs. cents x) \<Longrightarrow> cents (sum_list xs)"
  by (induction xs) (auto simp: cents_0 cents_add)

lemma loop_body_unfold:
  assumes "price market (symbol lot) = Some px"
    and "\<not> (loss_total lot px < min_loss_dollars nav \<or> loss_pct lot px < min_loss_pct nav)"
    and "is_blocked nav (symbol lot) today buys = (b0, r0)"
    and "(if b0 then (None, None, None)
          else pick_replacement nav (symbol lot) (shares lot * px) market) = (rs, rq, rp)"
  shows "loop_body nav market buys today (idx, lot) (its, tot, cd) =
     (if date_min \<le> today + 31 \<and> today + 31 \<le> date_max then
        if round_py (loss_total lot px) 2 < 0
        then Inl (ValidationError ''loss_dollars must be >= 0'')
        else Inr (advance (its, tot, cd) (emit nav market buys today (idx, lot)))
      else Inl OverflowError)"
  using assms
  unfolding loop_body_def emit_def advance_def date_add_def HarvestItem_init_def loss_positive_def
  by (cases b0; cases rs) (simp_all add: Let_def)

lemma loop_body_cases:
  "loop_body nav market buys today (idx, lot) (its, tot, cd) =
     (case emit nav market buys today (idx, lot) of
        None \<Rightarrow> Inr (its, tot, cd)
      | Some r \<Rightarrow>
          if date_min \<le> today + 31 \<and> today + 31 \<le> date_max then
            if loss_dollars (fst r) < 0
            then Inl (ValidationError ''loss_dollars must be >= 0'')
            else Inr (advance (its, tot, cd) (Some r))
          else Inl OverflowError)"
proof (cases "price market (symbol lot)")
  case None
  then show ?thesis by (simp add: loop_body_def emit_def)
next
  case (Some px)
  show ?thesis
  proof (cases "loss_total lot px < min_loss_dollars nav \<or> loss_pct lot px < min_loss_pct nav")
    case True
    with Some show ?thesis by (simp add: loop_body_def emit_def)
  next
    case False
    obtain b0 r0 where ib: "is_blocked nav (symbol lot) today buys = (b0, r0)"
      by (cases "is_blocked nav (symbol lot) today buys")
    obtain rs rq rp where pr:
      "(if b0 then (None, None, None)
        else pick_replacement nav (symbol lot) (shares lot * px) market) = (rs, rq, rp)"
      by (metis prod_cases3)
    have e: "\<exists>r. emit nav market buys today (idx, lot) = Some r
               \<and> loss_dollars (fst r) = round_py (loss_total lot px) 2"
      using Some False by (simp add: emit_def Let_def)
    show ?thesis
      using e loop_body_unfold [OF Some False ib pr, of idx its tot cd] by auto
  qed
qed

lemma emitted_Nil: "emitted nav market buys today [] = []"
  by (simp add: emitted_def map_filter_simps)

lemma emitted_Cons:
  "emitted nav market buys today (il # ils) =
     (case emit nav market buys today il of
        None \<Rightarrow> emitted nav market buys today ils
      | Some r \<Rightarrow> r # emitted nav market buys today ils)"
  by (simp add: emitted_def map_filter_simps split: option.splits)

lemma build_plan_loop_Inr:
  "build_plan_loop nav market buys today ils (its, tot, cd) = Inr st' \<Longrightarrow>
   st' = (its @ map fst (emitted nav market buys today ils),
          tot + sum_list (map (\<lambda>r. fst (snd r)) (emitted nav market buys today ils)),
          cd + sum_list (map (\<lambda>r. snd (snd r)) (emitted nav market buys today ils)))"
proof (induction ils arbitrary: its tot cd)
  case Nil
  then show ?case by (simp add: emitted_Nil)
next
  case (Cons il ils)
  obtain idx lot where il: "il = (idx, lot)" by (cases il)
  show ?case
  proof (cases "emit nav market buys today il")
    case None
    then have "loop_body nav market buys today il (its, tot, cd) = Inr (its, tot, cd)"
      by (simp add: il loop_body_cases)
    with Cons.prems have "build_plan_loop nav market buys today ils (its, tot, cd) = Inr st'"
      by simp
    from Cons.IH [OF this] None show ?thesis by (simp add: emitted_Cons)
  next
    case (Some r)
    obtain it dl dc where r: "r = (it, dl, dc)" by (cases r)
    from Cons.prems Some
    have lb: "loop_body nav market buys today il (its, tot, cd) = Inr (its @ [it], tot + dl, cd + dc)"
      by (auto simp: il r loop_body_cases advance_def split: if_splits)
    with Cons.prems
    have "build_plan_loop nav market buys today ils (its @ [it], tot + dl, cd + dc) = Inr st'"
      by simp
    from Cons.IH [OF this] Some show ?thesis by (simp add: emitted_Cons r)
  qed
qed

lemma build_plan_loop_Inl:
  "build_plan_loop nav market buys today ils st = Inl e \<Longrightarrow>
   e = OverflowError \<or> e = ValidationError ''loss_dollars must be >= 0''"
proof (induction ils arbitrary: st)
  case Nil
  then show ?case by simp
next
  case (Cons il ils)
  obtain idx lot where il: "il = (idx, lot)" by (cases il)
  obtain its tot cd where st: "st = (its, tot, cd)" by (cases st)
  show ?case
  proof (cases "loop_body nav market buys today il st")
    case (Inl e')
    with Cons.prems have "e' = e" by simp
    with Inl show ?thesis
      by (auto simp: il st loop_body_cases split: option.splits if_splits)
  next
    case (Inr st'')
    with Cons.prems have "build_plan_loop nav market buys today ils st'' = Inl e" by simp
    then show ?thesis by (rule Cons.IH)
  qed
qed

lemma build_plan_loop_returns:
  assumes "date_min \<le> today + 31" and "today + 31 \<le> date_max"
    and "\<forall>r\<in>set (emitted nav market buys today ils). 0 \<le> loss_dollars (fst r)"
  shows "\<exists>st'. build_plan_loop nav market buys today ils st = Inr st'"
  using assms(3)
proof (induction ils arbitrary: st)
  case Nil
  show ?case by (rule exI [of _ st]) simp
next
  case (Cons il ils)
  obtain idx lot where il: "il = (idx, lot)" by (cases il)
  obtain its tot cd where st: "st = (its, tot, cd)" by (cases st)
  have "\<exists>st''. loop_body nav market buys today il st = Inr st''"
    using Cons.prems assms(1,2)
    by (cases "emit nav market buys today il")
       (auto simp: il st loop_body_cases emitted_Cons advance_def)
  then obtain st'' where s: "loop_body nav market buys today il st = Inr st''" ..
  have "\<forall>r\<in>set (emitted nav market buys today ils). 0 \<le> loss_dollars (fst r)"
    using Cons.prems by (auto simp: emitted_Cons split: option.splits)
  from Cons.IH [OF this, of st''] s show ?case by simp
qed

lemma cluster_for_loop_self: "s \<in> cluster_for_loop cs s"
  by (induction cs) auto

lemma cluster_for_self: "s \<in> cluster_for pol s"
  by (simp add: cluster_for_def cluster_for_loop_self)

lemma cluster_for_loop_first:
  "(\<forall>c\<in>set pre. s \<notin> set c) \<Longrightarrow> s \<in> set c \<Longrightarrow> cluster_for_loop (pre @ c # post) s = set c"
  by (induction pre) auto

lemma cluster_for_loop_none:
  "(\<forall>c\<in>set cs. s \<notin> set c) \<Longrightarrow> cluster_for_loop cs s = {s}"
  by (induction cs) auto

lemma safe_alternatives_loop_first:
  "(\<forall>e\<in>set pre. s \<notin> cluster_for pol (fst e)) \<Longrightarrow> s \<in> cluster_for pol s' \<Longrightarrow>
   safe_alternatives_loop pol s (pre @ (s', lst) # post) = lst"
  by (induction pre) auto

lemma safe_alternatives_loop_none:
  "(\<forall>e\<in>set tab. s \<notin> cluster_for pol (fst e)) \<Longrightarrow> safe_alternatives_loop pol s tab = []"
  by (induction tab) auto

lemma safe_alternatives_disjoint:
  "a \<in> set (safe_alternatives pol s) \<Longrightarrow> a \<notin> cluster_for pol s"
  by (simp add: safe_alternatives_def Let_def)

lemma is_blocked_loop_first:
  "(\<forall>x\<in>set pre. \<not> in_window c sd x) \<Longrightarrow> in_window c sd rb \<Longrightarrow>
   is_blocked_loop c sd (pre @ rb # post) = (True, Recent_buy_triggers (rb_date rb) (rb_symbol rb))"
  by (induction pre) (auto simp: in_window_def)

lemma is_blocked_loop_none:
  "(\<forall>x\<in>set buys. \<not> in_window c sd x) \<Longrightarrow> is_blocked_loop c sd buys = (False, No_reason)"
  by (induction buys) (auto simp: in_window_def)

lemma is_blocked_loop_cases:
  "(fst (is_blocked_loop c sd buys) = (\<exists>x\<in>set buys. in_window c sd x)) \<and>
   (fst (is_blocked_loop c sd buys) \<longrightarrow>
      (\<exists>pre rb post. buys = pre @ rb # post \<and> (\<forall>x\<in>set pre. \<not> in_window c sd x)
         \<and> in_window c sd rb
         \<and> snd (is_blocked_loop c sd buys) = Recent_buy_triggers (rb_date rb) (rb_symbol rb)))"
proof (cases "\<exists>x\<in>set buys. in_window c sd x")
  case True
  then obtain pre rb post where
    d: "buys = pre @ rb # post" "in_window c sd rb" "\<forall>x\<in>set pre. \<not> in_window c sd x"
    by (auto simp: split_list_first_prop_iff)
  then have "is_blocked_loop c sd buys = (True, Recent_buy_triggers (rb_date rb) (rb_symbol rb))"
    by (simp add: is_blocked_loop_first)
  with True d show ?thesis by auto
next
  case False
  then show ?thesis by (simp add: is_blocked_loop_none)
qed

lemma pick_replacement_loop_first:
  "(\<forall>b\<in>set pre. \<not> usable market b) \<Longrightarrow> price market a = Some px \<Longrightarrow> 1 / 100 < px \<Longrightarrow>
   pick_replacement_loop proceeds market (pre @ a # post) = (Some a, Some (proceeds / px), Some px)"
  by (induction pre) (auto simp: usable_def split: option.splits)

lemma pick_replacement_loop_none:
  "(\<forall>b\<in>set alts. \<not> usable market b) \<Longrightarrow>
   pick_replacement_loop proceeds market alts = (None, None, None)"
  by (induction alts) (auto simp: usable_def split: option.splits)

lemma pick_replacement_loop_cases:
  "((\<forall>b\<in>set alts. \<not> usable market b) \<and>
      pick_replacement_loop proceeds market alts = (None, None, None)) \<or>
   (\<exists>pre a post px. alts = pre @ a # post \<and> (\<forall>b\<in>set pre. \<not> usable market b)
      \<and> price market a = Some px \<and> 1 / 100 < px
      \<and> pick_replacement_loop proceeds market alts = (Some a, Some (proceeds / px), Some px))"
proof (cases "\<exists>b\<in>set alts. usable market b")
  case True
  then obtain pre a post where
    d: "alts = pre @ a # post" "usable market a" "\<forall>b\<in>set pre. \<not> usable market b"
    by (auto simp: split_list_first_prop_iff)
  then obtain px where "price market a = Some px" "1 / 100 < px"
    by (auto simp: usable_def split: option.splits)
  with d show ?thesis
    using pick_replacement_loop_first [of pre market a px proceeds post] by blast
next
  case False
  then show ?thesis by (simp add: pick_replacement_loop_none)
qed

lemma validate_items_ok:
  "(\<forall>it\<in>set its. \<not> wash_sale_blocked it \<longrightarrow>
      (\<forall>r. replacement_symbol it = Some r \<longrightarrow> r \<notin> cluster_for (policy nav) (it_symbol it))
      \<and> 31 \<le> reentry_date_ok_after it - sale_date it) \<Longrightarrow>
   validate_items nav its = Inr ()"
  by (induction its) (auto split: option.splits)

lemma emit_fields:
  assumes "emit nav market buys today (idx, lot) = Some (it, dl, dc)"
  shows "price market (symbol lot) = Some (sale_price it)"
    and "min_loss_dollars nav \<le> loss_total lot (sale_price it)"
    and "min_loss_pct nav \<le> loss_pct lot (sale_price it)"
    and "it_symbol it = symbol lot"
    and "lot_index it = idx"
    and "shares_to_sell it = round_py (shares lot) 6"
    and "loss_dollars it = round_py (loss_total lot (sale_price it)) 2"
    and "sale_date it = today"
    and "reentry_date_ok_after it = today + 31"
    and "dl = (if wash_sale_blocked it then 0 else loss_dollars it)"
  using assms
  by (auto simp: emit_def Let_def split: option.splits if_splits)

lemma emit_decision:
  assumes "emit nav market buys today (idx, lot) = Some (it, dl, dc)"
  shows
    "((\<exists>pre rb post. buys = pre @ rb # post
          \<and> (\<forall>x\<in>set pre. \<not> in_window (cluster_for (policy nav) (symbol lot)) today x)
          \<and> in_window (cluster_for (policy nav) (symbol lot)) today rb
          \<and> block_reason it = Some (Recent_buy_triggers (rb_date rb) (rb_symbol rb)))
        \<and> wash_sale_blocked it \<and> replacement_symbol it = None
        \<and> replacement_shares it = None \<and> replacement_price it = None \<and> dc = 0)
     \<or> ((\<forall>x\<in>set buys. \<not> in_window (cluster_for (policy nav) (symbol lot)) today x)
        \<and> (\<forall>b\<in>set (safe_alternatives (policy nav) (symbol lot)). \<not> usable market b)
        \<and> block_reason it = Some No_safe_replacement
        \<and> wash_sale_blocked it \<and> replacement_symbol it = None
        \<and> replacement_shares it = None \<and> replacement_price it = None \<and> dc = 0)
     \<or> ((\<forall>x\<in>set buys. \<not> in_window (cluster_for (policy nav) (symbol lot)) today x)
        \<and> (\<exists>pre a post rp. safe_alternatives (policy nav) (symbol lot) = pre @ a # post
              \<and> (\<forall>b\<in>set pre. \<not> usable market b)
              \<and> price market a = Some rp \<and> 1 / 100 < rp
              \<and> replacement_symbol it = Some a
              \<and> replacement_shares it = Some (round_py (shares lot * sale_price it / rp) 6)
              \<and> replacement_price it = Some rp
              \<and> dc = shares lot * sale_price it - shares lot * sale_price it / rp * rp)
        \<and> block_reason it = None \<and> \<not> wash_sale_blocked it)"
proof -
  from assms obtain px where px: "price market (symbol lot) = Some px"
    and th: "\<not> (loss_total lot px < min_loss_dollars nav \<or> loss_pct lot px < min_loss_pct nav)"
    by (auto simp: emit_def split: option.splits if_splits)
  let ?c = "cluster_for (policy nav) (symbol lot)"
  let ?ib = "is_blocked nav (symbol lot) today buys"
  let ?alts = "safe_alternatives (policy nav) (symbol lot)"
  note ib = is_blocked_loop_cases [of ?c today buys, folded is_blocked_def]
  show ?thesis
  proof (cases "fst ?ib")
    case True
    with ib obtain pre rb post where
      d: "buys = pre @ rb # post" "\<forall>x\<in>set pre. \<not> in_window ?c today x" "in_window ?c today rb"
         "snd ?ib = Recent_buy_triggers (rb_date rb) (rb_symbol rb)"
      by blast
    have "block_reason it = Some (Recent_buy_triggers (rb_date rb) (rb_symbol rb))"
      "wash_sale_blocked it" "replacement_symbol it = None" "replacement_shares it = None"
      "replacement_price it = None" "dc = 0"
      using assms px th True d(4) by (auto simp: emit_def Let_def)
    with d(1-3) show ?thesis by blast
  next
    case False
    with ib have nm: "\<forall>x\<in>set buys. \<not> in_window ?c today x" by blast
    note pr = pick_replacement_loop_cases [of ?alts market "shares lot * px",
        folded pick_replacement_def]
    from pr show ?thesis
    proof (elim disjE conjE exE)
      assume n: "\<forall>b\<in>set ?alts. \<not> usable market b"
        and e: "pick_replacement nav (symbol lot) (shares lot * px) market = (None, None, None)"
      have "block_reason it = Some No_safe_replacement"
        "wash_sale_blocked it" "replacement_symbol it = None" "replacement_shares it = None"
        "replacement_price it = None" "dc = 0"
        using assms px th False e by (auto simp: emit_def Let_def)
      with nm n show ?thesis by blast
    next
      fix pre a post rp
      assume d: "?alts = pre @ a # post" "\<forall>b\<in>set pre. \<not> usable market b"
        "price market a = Some rp" "1 / 100 < rp"
        and e: "pick_replacement nav (symbol lot) (shares lot * px) market =
                (Some a, Some (shares lot * px / rp), Some rp)"
      have "replacement_symbol it = Some a"
        "replacement_shares it = Some (round_py (shares lot * sale_price it / rp) 6)"
        "replacement_price it = Some rp"
        "dc = shares lot * sale_price it - shares lot * sale_price it / rp * rp"
        "block_reason it = None" "\<not> wash_sale_blocked it"
        using assms px th False e by (auto simp: emit_def Let_def)
      with nm d show ?thesis by blast
    qed
  qed
qed

lemma emitted_set:
  "r \<in> set (emitted nav market buys today ils) \<longleftrightarrow>
   (\<exists>il\<in>set ils. emit nav market buys today il = Some r)"
  by (induction ils) (auto simp: emitted_Nil emitted_Cons split: option.splits)

lemma emitted_member:
  "r \<in> set (emitted nav market buys today (enumerate 0 lots)) \<longleftrightarrow>
   (\<exists>i<length lots. emit nav market buys today (i, lots ! i) = Some r)"
  by (auto simp: emitted_set in_set_enumerate_eq)

lemma emitted_valid:
  assumes "r \<in> set (emitted nav market buys today ils)"
  shows "\<not> wash_sale_blocked (fst r) \<longrightarrow>
      (\<forall>a. replacement_symbol (fst r) = Some a \<longrightarrow> a \<notin> cluster_for (policy nav) (it_symbol (fst r)))
      \<and> 31 \<le> reentry_date_ok_after (fst r) - sale_date (fst r)"
proof -
  from assms obtain idx lot where e: "emit nav market buys today (idx, lot) = Some r"
    by (auto simp: emitted_set)
  obtain it dl dc where r: "r = (it, dl, dc)" by (cases r)
  note f = emit_fields [OF e [unfolded r]]
  have "replacement_symbol it = Some a \<Longrightarrow> a \<in> set (safe_alternatives (policy nav) (symbol lot))" for a
    using emit_decision [OF e [unfolded r]] by auto
  then have "replacement_symbol it = Some a \<Longrightarrow> a \<notin> cluster_for (policy nav) (it_symbol it)" for a
    using safe_alternatives_disjoint f(4) by metis
  then show ?thesis using f(8,9) by (simp add: r)
qed

lemma build_plan_cases:
  "build_plan nav lots market buys =
     (case build_plan_loop nav market buys (asof market) (enumerate 0 lots) ([], 0, 0) of
        Inl e \<Rightarrow> Inl e
      | Inr st \<Rightarrow>
          Inr \<lparr>plan_asof = asof market,
               items = map fst (emitted nav market buys (asof market) (enumerate 0 lots)),
               total_harvestable_loss =
                 round_py (sum_list (map (\<lambda>r. fst (snd r))
                   (emitted nav market buys (asof market) (enumerate 0 lots)))) 2,
               simulated_cash_delta =
                 round_py (sum_list (map (\<lambda>r. snd (snd r))
                   (emitted nav market buys (asof market) (enumerate 0 lots)))) 2,
               policy_version = ''demo-1''\<rparr>)"
proof (cases "build_plan_loop nav market buys (asof market) (enumerate 0 lots) ([], 0, 0)")
  case (Inl e)
  then show ?thesis by (simp add: build_plan_def Let_def)
next
  case (Inr st)
  let ?E = "emitted nav market buys (asof market) (enumerate 0 lots)"
  from build_plan_loop_Inr [OF Inr]
  have st: "st = (map fst ?E, sum_list (map (\<lambda>r. fst (snd r)) ?E),
                  sum_list (map (\<lambda>r. snd (snd r)) ?E))"
    by simp
  have "validate_items nav (map fst ?E) = Inr ()"
    by (rule validate_items_ok) (use emitted_valid in auto)
  with Inr st show ?thesis by (simp add: build_plan_def Let_def)
qed

lemma build_plan_Inr:
  assumes "build_plan nav lots market buys = Inr plan"
  shows "plan_asof plan = asof market"
    and "items plan = map fst (emitted nav market buys (asof market) (enumerate 0 lots))"
    and "total_harvestable_loss plan =
           round_py (sum_list (map (\<lambda>r. fst (snd r))
             (emitted nav market buys (asof market) (enumerate 0 lots)))) 2"
    and "simulated_cash_delta plan =
           round_py (sum_list (map (\<lambda>r. snd (snd r))
             (emitted nav market buys (asof market) (enumerate 0 lots)))) 2"
    and "policy_version plan = ''demo-1''"
  using assms by (auto simp: build_plan_cases split: sum.splits)

lemma build_plan_Inl:
  "build_plan nav lots market buys = Inl e \<Longrightarrow>
   e = OverflowError \<or> e = ValidationError ''loss_dollars must be >= 0''"
  by (auto simp: build_plan_cases split: sum.splits dest: build_plan_loop_Inl)

lemma item_source:
  assumes "build_plan nav lots market buys = Inr plan" and "it \<in> set (items plan)"
  shows "\<exists>dl dc. lot_index it < length lots \<and>
           emit nav market buys (asof market) (lot_index it, lots ! lot_index it) = Some (it, dl, dc)"
proof -
  from assms obtain r where r: "r \<in> set (emitted nav market buys (asof market) (enumerate 0 lots))"
    and it: "it = fst r"
    by (auto simp: build_plan_Inr(2))
  then obtain i where i: "i < length lots" "emit nav market buys (asof market) (i, lots ! i) = Some r"
    by (auto simp: emitted_member)
  obtain dl dc where "r = (it, dl, dc)" using it by (cases r) auto
  with i emit_fields(5) [of nav market buys "asof market" i "lots ! i" it dl dc]
  show ?thesis by auto
qed

lemmas eval_defs =
  build_plan_def loop_body_def price_def loss_total_def loss_pct_def is_blocked_def
  pick_replacement_def safe_alternatives_def cluster_for_def date_add_def date_min_def
  date_max_def HarvestItem_init_def loss_positive_def round_py_def round_half_even_def
  enumerate_eq_zip Let_def

lemma build_plan_ex: "build_plan ex_nav ex_lots ex_market [ex_buy] = Inr ex_plan"
  by (simp add: eval_defs ex_nav_def ex_lots_def ex_market_def ex_buy_def ex_plan_def
      demo_policy_def)




lemma sum_list_unblocked:
  "(\<forall>r\<in>set E. g r = (if P (fst r) then 0 else f (fst r))) \<Longrightarrow>
   sum_list (map g E) = sum_list (map f (filter (\<lambda>x. \<not> P x) (map fst E)))"
  by (induction E) auto

lemma sum_list_zeros: "(\<forall>x\<in>set xs. x = (0::real)) \<Longrightarrow> sum_list xs = 0"
  by (induction xs) auto

lemma emit_cash_zero:
  assumes "emit nav market buys today (i, lot) = Some (it, dl, dc)"
  shows "dc = 0"
  using emit_decision [OF assms]
  by (elim disjE conjE exE) simp_all

lemma build_plan_loss_sum:
  assumes "build_plan nav lots market buys = Inr plan"
  shows "total_harvestable_loss plan =
         sum_list (map loss_dollars (filter (\<lambda>it. \<not> wash_sale_blocked it) (items plan)))"
proof -
  let ?E = "emitted nav market buys (asof market) (enumerate 0 lots)"
  have 1: "\<forall>r\<in>set ?E. fst (snd r) = (if wash_sale_blocked (fst r) then 0 else loss_dollars (fst r))"
  proof
    fix r assume "r \<in> set ?E"
    then obtain i where "emit nav market buys (asof market) (i, lots ! i) = Some r"
      by (auto simp: emitted_member)
    then show "fst (snd r) = (if wash_sale_blocked (fst r) then 0 else loss_dollars (fst r))"
      by (cases r) (auto dest: emit_fields(10))
  qed
  have 2: "sum_list (map (\<lambda>r. fst (snd r)) ?E) =
           sum_list (map loss_dollars (filter (\<lambda>it. \<not> wash_sale_blocked it) (map fst ?E)))"
    by (rule sum_list_unblocked [OF 1])
  have "\<forall>x\<in>set (map loss_dollars (filter (\<lambda>it. \<not> wash_sale_blocked it) (map fst ?E))). cents x"
  proof
    fix x assume "x \<in> set (map loss_dollars (filter (\<lambda>it. \<not> wash_sale_blocked it) (map fst ?E)))"
    then obtain r where "r \<in> set ?E" "x = loss_dollars (fst r)" by auto
    then obtain i where "emit nav market buys (asof market) (i, lots ! i) = Some r"
      by (auto simp: emitted_member)
    with \<open>x = loss_dollars (fst r)\<close> show "cents x"
      by (cases r) (auto dest: emit_fields(7) simp: cents_round_py)
  qed
  then have "cents (sum_list (map loss_dollars (filter (\<lambda>it. \<not> wash_sale_blocked it) (map fst ?E))))"
    by (rule cents_sum_list)
  then show ?thesis
    by (simp add: build_plan_Inr(2,3) [OF assms] 2 round_py_cents)
qed

lemma build_plan_cash_zero:
  assumes "build_plan nav lots market buys = Inr plan"
  shows "simulated_cash_delta plan = 0"
proof -
  let ?E = "emitted nav market buys (asof market) (enumerate 0 lots)"
  have "\<forall>x\<in>set (map (\<lambda>r. snd (snd r)) ?E). x = 0"
  proof
    fix x assume "x \<in> set (map (\<lambda>r. snd (snd r)) ?E)"
    then obtain r where "r \<in> set ?E" "x = snd (snd r)" by auto
    then obtain i where "emit nav market buys (asof market) (i, lots ! i) = Some r"
      by (auto simp: emitted_member)
    with \<open>x = snd (snd r)\<close> show "x = 0"
      by (cases r) (auto dest: emit_cash_zero)
  qed
  then have "sum_list (map (\<lambda>r. snd (snd r)) ?E) = 0"
    by (rule sum_list_zeros)
  then show ?thesis
    by (simp add: build_plan_Inr(4) [OF assms] round_py_def round_half_even_def)
qed

lemma build_plan_ex_no_buys: "build_plan ex_nav ex_lots ex_market [] = Inr ex_plan_no_buys"
  by (simp add: eval_defs ex_nav_def ex_lots_def ex_market_def ex_plan_def ex_plan_no_buys_def
      demo_policy_def)

lemma build_plan_neg:
  "build_plan neg_nav [neg_lot] ex_market [] = Inl (ValidationError ''loss_dollars must be >= 0'')"
  by (simp add: eval_defs neg_nav_def neg_lot_def ex_market_def demo_policy_def)

lemma ex_item_1: "items ex_plan ! 1 \<in> set (items ex_plan)"
  by (simp add: ex_plan_def)

lemma ex_item_0: "items ex_plan ! 0 \<in> set (items ex_plan)"
  by (simp add: ex_plan_def)

lemma ex_item_2: "items ex_plan ! 2 \<in> set (items ex_plan)"
  by (simp add: ex_plan_def)

lemma loss_total_nonneg: "0 \<le> shares lot \<Longrightarrow> 0 \<le> loss_total lot px"
  by (simp add: loss_total_def Let_def)

lemma build_plan_far: "build_plan ex_nav ex_lots far_market [ex_buy] = Inl OverflowError"
  by (simp add: eval_defs ex_nav_def ex_lots_def ex_market_def far_market_def ex_buy_def
      demo_policy_def)

lemma pick_replacement_loop_with_exact:
  "pick_replacement_loop_with (/) proceeds market alts = pick_replacement_loop proceeds market alts"
  by (induction alts) (simp_all split: option.splits)

lemma loop_body_with_exact: "loop_body_with (/) = loop_body"
  by (intro ext)
     (simp only: loop_body_with_def loop_body_def pick_replacement_with_def pick_replacement_def
        pick_replacement_loop_with_exact)

lemma build_plan_loop_with_exact:
  "build_plan_loop_with (/) nav market buys today ils st = build_plan_loop nav market buys today ils st"
  by (induction ils arbitrary: st) (simp_all add: loop_body_with_exact split: sum.splits)

lemma build_plan_with_exact: "build_plan_with (/) = build_plan"
  by (intro ext) (simp only: build_plan_with_def build_plan_def build_plan_loop_with_exact)

lemma pick_replacement_loop_with_shape:
  "pick_replacement_loop_with dv proceeds market alts = (None, None, None)
   \<or> (\<exists>a px. pick_replacement_loop_with dv proceeds market alts
          = (Some a, Some (dv proceeds px), Some px))"
  by (induction alts) (auto split: option.splits)

lemma loop_body_with_step:
  assumes "loop_body_with dv nav market buys today (idx, lot) (its, tot, cd) = Inr st'"
  shows "st' = (its, tot, cd)
    \<or> (\<exists>it tot'. st' = (its @ [it], tot',
                          cd + (if wash_sale_blocked it then 0 else step_term dv lot it))
          \<and> lot_index it = idx
          \<and> it_symbol it = symbol lot
          \<and> shares_to_sell it = round_py (shares lot) 6
          \<and> price market (symbol lot) = Some (sale_price it)
          \<and> (\<not> wash_sale_blocked it \<longrightarrow>
               (\<exists>rp. replacement_price it = Some rp
                  \<and> replacement_shares it
                      = Some (round_py (dv (shares lot * sale_price it) rp) 6))))"
proof (cases "price market (symbol lot)")
  case None
  with assms show ?thesis by (simp add: loop_body_with_def)
next
  case (Some px)
  show ?thesis
  proof (cases "loss_total lot px < min_loss_dollars nav \<or> loss_pct lot px < min_loss_pct nav")
    case True
    with Some assms show ?thesis by (simp add: loop_body_with_def)
  next
    case False
    obtain b0 r0 where ib: "is_blocked nav (symbol lot) today buys = (b0, r0)"
      by (cases "is_blocked nav (symbol lot) today buys")
    obtain rs rq rp where pr:
      "(if b0 then (None, None, None)
        else pick_replacement_with dv nav (symbol lot) (shares lot * px) market) = (rs, rq, rp)"
      by (metis prod_cases3)
    have shape: "(rs = None \<and> rq = None \<and> rp = None)
       \<or> (\<not> b0 \<and> (\<exists>a p. rs = Some a \<and> rq = Some (dv (shares lot * px) p) \<and> rp = Some p))"
      using pr pick_replacement_loop_with_shape
        [of dv "shares lot * px" market "safe_alternatives (policy nav) (symbol lot)"]
      unfolding pick_replacement_with_def by (cases b0) auto
    define blocked where "blocked = (b0 \<or> rs = None)"
    define it where "it =
      \<lparr>it_symbol = symbol lot,
       lot_index = idx,
       shares_to_sell = round_py (shares lot) 6,
       sale_price = px,
       loss_dollars = round_py (loss_total lot px) 2,
       replacement_symbol = rs,
       replacement_shares = map_option (\<lambda>q. round_py q 6) rq,
       replacement_price = rp,
       sale_date = today,
       reentry_date_ok_after = today + 31,
       wash_sale_blocked = blocked,
       block_reason =
         (if b0 then Some r0 else if rs = None then Some No_safe_replacement else None),
       notes_opt = None\<rparr>"
    have st: "st' = (its @ [it],
                     (if blocked then tot else tot + loss_dollars it),
                     (if blocked then cd
                      else cd + (shares lot * px
                                 - (case rq of None \<Rightarrow> 0 | Some q \<Rightarrow> q)
                                   * (case rp of None \<Rightarrow> 0 | Some p \<Rightarrow> p))))"
      using assms Some False ib pr
      unfolding loop_body_with_def date_add_def HarvestItem_init_def loss_positive_def
        it_def blocked_def
      by (cases b0; cases rs) (simp_all add: Let_def split: if_splits)
    have f: "lot_index it = idx" "it_symbol it = symbol lot"
      "shares_to_sell it = round_py (shares lot) 6" "sale_price it = px"
      "wash_sale_blocked it = blocked" "replacement_price it = rp"
      "replacement_shares it = map_option (\<lambda>q. round_py q 6) rq"
      by (simp_all add: it_def)
    have c: "(if blocked then cd
              else cd + (shares lot * px
                         - (case rq of None \<Rightarrow> 0 | Some q \<Rightarrow> q)
                           * (case rp of None \<Rightarrow> 0 | Some p \<Rightarrow> p)))
             = cd + (if wash_sale_blocked it then 0 else step_term dv lot it)"
      using shape by (auto simp: f step_term_def blocked_def)
    have r: "\<not> wash_sale_blocked it \<longrightarrow>
               (\<exists>rp'. replacement_price it = Some rp'
                  \<and> replacement_shares it
                      = Some (round_py (dv (shares lot * sale_price it) rp') 6))"
      using shape by (auto simp: f blocked_def)
    show ?thesis
      apply (rule disjI2)
      apply (rule exI [of _ it])
      apply (rule exI [of _ "if blocked then tot else tot + loss_dollars it"])
      using st c r Some f(1-4) apply simp
      done
  qed
qed


lemma build_plan_loop_with_Inr:
  assumes "build_plan_loop_with dv nav market buys today ils st = Inr st'"
    and "\<forall>il\<in>set ils. fst il < length lots \<and> lots ! fst il = snd il"
  shows "\<exists>new. fst st' = fst st @ new
     \<and> (\<forall>it\<in>set new. sells_whole_lot dv market lots it)
     \<and> snd (snd st') = snd (snd st)
          + sum_list (map (cash_term_with dv lots) (filter (\<lambda>it. \<not> wash_sale_blocked it) new))"
  using assms
proof (induction ils arbitrary: st)
  case Nil
  then have "st' = st" by simp
  then show ?case by (intro exI [of _ "[]"]) simp
next
  case (Cons il ils)
  obtain idx lot where il: "il = (idx, lot)" by (cases il)
  obtain its tot cd where st: "st = (its, tot, cd)" by (cases st)
  from Cons.prems(2) have lot: "idx < length lots" "lots ! idx = lot" by (simp_all add: il)
  from Cons.prems(2) have rest: "\<forall>il\<in>set ils. fst il < length lots \<and> lots ! fst il = snd il"
    by simp
  from Cons.prems(1) obtain st1 where
    s1: "loop_body_with dv nav market buys today (idx, lot) (its, tot, cd) = Inr st1"
    and s2: "build_plan_loop_with dv nav market buys today ils st1 = Inr st'"
    by (auto simp: il st split: sum.splits)
  from Cons.IH [OF s2 rest] obtain new where
    n: "fst st' = fst st1 @ new" "\<forall>it\<in>set new. sells_whole_lot dv market lots it"
       "snd (snd st') = snd (snd st1)
          + sum_list (map (cash_term_with dv lots) (filter (\<lambda>it. \<not> wash_sale_blocked it) new))"
    by blast
  from loop_body_with_step [OF s1]
  consider (skip) "st1 = (its, tot, cd)"
    | (emit) it tot' where
        "st1 = (its @ [it], tot', cd + (if wash_sale_blocked it then 0 else step_term dv lot it))"
        "lot_index it = idx" "it_symbol it = symbol lot"
        "shares_to_sell it = round_py (shares lot) 6"
        "price market (symbol lot) = Some (sale_price it)"
        "\<not> wash_sale_blocked it \<longrightarrow>
           (\<exists>rp. replacement_price it = Some rp
              \<and> replacement_shares it = Some (round_py (dv (shares lot * sale_price it) rp) 6))"
    by blast
  then show ?case
  proof cases
    case skip
    with n show ?thesis by (intro exI [of _ new]) (simp add: st)
  next
    case emit
    have w: "sells_whole_lot dv market lots it"
      using emit(2-6) lot by (simp add: sells_whole_lot_def proceeds_of_def)
    have p: "proceeds_of lots it = shares lot * sale_price it"
      using emit(2) lot by (simp add: proceeds_of_def)
    have t: "step_term dv lot it = cash_term_with dv lots it"
      unfolding step_term_def cash_term_with_def p by (rule refl)
    show ?thesis
      using n w t emit(1) by (intro exI [of _ "it # new"]) (simp add: st)
  qed
qed

lemma enumerate_lots: "\<forall>il\<in>set (enumerate 0 lots). fst il < length lots \<and> lots ! fst il = snd il"
  by (auto simp: in_set_enumerate_eq)

lemma build_plan_with_Inr:
  assumes "build_plan_with dv nav lots market buys = Inr plan"
  shows "(\<forall>it\<in>set (items plan). sells_whole_lot dv market lots it)
     \<and> simulated_cash_delta plan =
         round_py (sum_list (map (cash_term_with dv lots)
           (filter (\<lambda>it. \<not> wash_sale_blocked it) (items plan)))) 2"
proof -
  from assms obtain its tot cd where
    l: "build_plan_loop_with dv nav market buys (asof market) (enumerate 0 lots) ([], 0, 0)
          = Inr (its, tot, cd)"
    and p: "items plan = its" "simulated_cash_delta plan = round_py cd 2"
    by (auto simp: build_plan_with_def Let_def split: sum.splits)
  from build_plan_loop_with_Inr [OF l enumerate_lots] p show ?thesis by simp
qed

lemma build_plan_with_ex:
  "build_plan_with round6_quotient ex_nav ex_lots ex_market [ex_buy]
     = Inr ex_plan_round6"
  by (simp add: eval_defs build_plan_with_def loop_body_with_def pick_replacement_with_def
      round6_quotient_def ex_nav_def ex_lots_def ex_market_def ex_buy_def ex_plan_def ex_plan_round6_def
      demo_policy_def)

section \<open>Claims\<close>

text \<open>
  In what follows \<open>build_plan nav lots market buys = Inr plan\<close> says that the call returned
  \<open>plan\<close>; \<open>Inl e\<close> is the exception that aborted it.
\<close>

subsection \<open>C1: the wash-sale test and the blocked flag\<close>

text \<open>
  C1, as stated, fails: the flag \<open>wash_sale_blocked\<close> of an emitted item is also set when no
  recent buy matches but no safe alternative has a usable price. In the example plan the TSLA
  item is blocked although the only recent buy (VOO) is not in the cluster of TSLA.
\<close>

theorem wash_sale_flag_counterexample:
  "build_plan ex_nav ex_lots ex_market [ex_buy] = Inr ex_plan
   \<and> it_symbol (items ex_plan ! 2) = ''TSLA''
   \<and> wash_sale_blocked (items ex_plan ! 2)
   \<and> \<not> (rb_symbol ex_buy \<in> cluster_for (policy ex_nav) ''TSLA''
          \<and> 0 \<le> asof ex_market - rb_date ex_buy \<and> asof ex_market - rb_date ex_buy \<le> 30)"
  by (simp add: build_plan_ex)
     (simp add: ex_plan_def ex_buy_def ex_nav_def demo_policy_def cluster_for_def)

text \<open>
  C1, amended: every emitted item belongs to the lot at its \<open>lot_index\<close>; its flag
  \<open>wash_sale_blocked\<close> is set if and only if some recent buy has its symbol in the lot's
  cluster and a date \<open>d\<close> with \<open>0 \<le> asof - d \<le> 30\<close>, or no safe alternative has a usable price;
  and when some recent buy matches, the block reason records the date and symbol of the first
  matching buy in input order.
\<close>

theorem wash_sale_block_decision:
  assumes "build_plan nav lots market buys = Inr plan" and "it \<in> set (items plan)"
  shows "lot_index it < length lots \<and> it_symbol it = symbol (lots ! lot_index it)
    \<and> (wash_sale_blocked it \<longleftrightarrow>
         (\<exists>rb\<in>set buys. in_window (cluster_for (policy nav) (it_symbol it)) (asof market) rb)
         \<or> (\<forall>a\<in>set (safe_alternatives (policy nav) (it_symbol it)). \<not> usable market a))
    \<and> ((\<exists>rb\<in>set buys. in_window (cluster_for (policy nav) (it_symbol it)) (asof market) rb) \<longrightarrow>
         (\<exists>pre rb post. buys = pre @ rb # post
            \<and> (\<forall>x\<in>set pre. \<not> in_window (cluster_for (policy nav) (it_symbol it)) (asof market) x)
            \<and> in_window (cluster_for (policy nav) (it_symbol it)) (asof market) rb
            \<and> block_reason it = Some (Recent_buy_triggers (rb_date rb) (rb_symbol rb))))"
proof -
  from item_source [OF assms] obtain dl dc where i: "lot_index it < length lots"
    and e: "emit nav market buys (asof market) (lot_index it, lots ! lot_index it) = Some (it, dl, dc)"
    by blast
  note s = emit_fields(4) [OF e]
  let ?W = "in_window (cluster_for (policy nav) (it_symbol it)) (asof market)"
  let ?alts = "safe_alternatives (policy nav) (it_symbol it)"
  from emit_decision [OF e, folded s] consider
    (recent) pre rb post where "buys = pre @ rb # post" "\<forall>x\<in>set pre. \<not> ?W x" "?W rb"
      "block_reason it = Some (Recent_buy_triggers (rb_date rb) (rb_symbol rb))"
      "wash_sale_blocked it"
    | (none) "\<forall>x\<in>set buys. \<not> ?W x" "\<forall>b\<in>set ?alts. \<not> usable market b" "wash_sale_blocked it"
    | (picked) pre a post rp where "\<forall>x\<in>set buys. \<not> ?W x" "?alts = pre @ a # post"
      "price market a = Some rp" "1 / 100 < rp" "\<not> wash_sale_blocked it"
    by blast
  then show ?thesis
  proof cases
    case recent
    from recent(1,3) have ex: "\<exists>rb\<in>set buys. ?W rb" by auto
    from recent have "\<exists>pre rb post. buys = pre @ rb # post \<and> (\<forall>x\<in>set pre. \<not> ?W x) \<and> ?W rb
        \<and> block_reason it = Some (Recent_buy_triggers (rb_date rb) (rb_symbol rb))"
      by blast
    with ex recent(5) i s show ?thesis by simp
  next
    case none
    with i s show ?thesis by simp
  next
    case picked
    from picked(2,3,4) have "\<exists>a\<in>set ?alts. usable market a"
      by (auto simp: usable_def)
    with picked(1,5) i s show ?thesis by auto
  qed
qed

theorem wash_sale_block_decision_witness:
  "build_plan ex_nav ex_lots ex_market [ex_buy] = Inr ex_plan
   \<and> items ex_plan ! 0 \<in> set (items ex_plan)
   \<and> in_window (cluster_for (policy ex_nav) (it_symbol (items ex_plan ! 0))) (asof ex_market) ex_buy
   \<and> wash_sale_blocked (items ex_plan ! 0)
   \<and> block_reason (items ex_plan ! 0) = Some (Recent_buy_triggers (rb_date ex_buy) (rb_symbol ex_buy))"
proof -
  have w: "in_window (cluster_for (policy ex_nav) (it_symbol (items ex_plan ! 0))) (asof ex_market) ex_buy"
    by (simp add: in_window_def ex_plan_def ex_buy_def ex_nav_def ex_market_def demo_policy_def
        cluster_for_def)
  from wash_sale_block_decision [OF build_plan_ex ex_item_0] w
  obtain pre rb post where d: "[ex_buy] = pre @ rb # post"
    and r: "block_reason (items ex_plan ! 0) = Some (Recent_buy_triggers (rb_date rb) (rb_symbol rb))"
    and b: "wash_sale_blocked (items ex_plan ! 0)"
    by auto
  from d have "pre = [] \<and> rb = ex_buy" by (cases pre) auto
  with r b w build_plan_ex ex_item_0 show ?thesis by simp
qed

subsection \<open>C7: sale date and re-entry date\<close>

text \<open>
  C7: every emitted item, blocked or not, has \<open>sale_date\<close> equal to the as-of date of the market
  snapshot and \<open>reentry_date_ok_after\<close> equal to the sale date plus 31 days; so for every
  non-blocked item the re-entry date is at least 31 days after the sale date.
\<close>

theorem reentry_date_31_days:
  assumes "build_plan nav lots market buys = Inr plan"
  shows "\<forall>it\<in>set (items plan).
           sale_date it = asof market
           \<and> reentry_date_ok_after it = sale_date it + 31
           \<and> (\<not> wash_sale_blocked it \<longrightarrow> 31 \<le> reentry_date_ok_after it - sale_date it)"
proof
  fix it assume "it \<in> set (items plan)"
  from item_source [OF assms this] obtain dl dc where
    "emit nav market buys (asof market) (lot_index it, lots ! lot_index it) = Some (it, dl, dc)"
    by blast
  from emit_fields(8,9) [OF this]
  show "sale_date it = asof market \<and> reentry_date_ok_after it = sale_date it + 31
        \<and> (\<not> wash_sale_blocked it \<longrightarrow> 31 \<le> reentry_date_ok_after it - sale_date it)"
    by simp
qed

theorem reentry_date_31_days_witness:
  "build_plan ex_nav ex_lots ex_market [ex_buy] = Inr ex_plan
   \<and> sale_date (items ex_plan ! 1) = asof ex_market
   \<and> reentry_date_ok_after (items ex_plan ! 1) = sale_date (items ex_plan ! 1) + 31"
  using reentry_date_31_days [OF build_plan_ex] ex_item_1 build_plan_ex by blast

subsection \<open>C9: blocked flag, block reason and replacement fields\<close>

text \<open>
  C9: in every returned plan, each item is blocked if and only if its block reason is present;
  a non-blocked item has all three replacement fields present, and a blocked item has all
  three absent.
\<close>

theorem blocked_iff_reason_and_replacement_fields:
  assumes "build_plan nav lots market buys = Inr plan"
  shows "\<forall>it\<in>set (items plan).
           (wash_sale_blocked it \<longleftrightarrow> block_reason it \<noteq> None)
           \<and> (\<not> wash_sale_blocked it \<longrightarrow>
                replacement_symbol it \<noteq> None \<and> replacement_shares it \<noteq> None
                \<and> replacement_price it \<noteq> None)
           \<and> (wash_sale_blocked it \<longrightarrow>
                replacement_symbol it = None \<and> replacement_shares it = None
                \<and> replacement_price it = None)"
proof
  fix it assume "it \<in> set (items plan)"
  from item_source [OF assms this] obtain dl dc where
    "emit nav market buys (asof market) (lot_index it, lots ! lot_index it) = Some (it, dl, dc)"
    by blast
  from emit_decision [OF this]
  show "(wash_sale_blocked it \<longleftrightarrow> block_reason it \<noteq> None)
           \<and> (\<not> wash_sale_blocked it \<longrightarrow>
                replacement_symbol it \<noteq> None \<and> replacement_shares it \<noteq> None
                \<and> replacement_price it \<noteq> None)
           \<and> (wash_sale_blocked it \<longrightarrow>
                replacement_symbol it = None \<and> replacement_shares it = None
                \<and> replacement_price it = None)"
    by (elim disjE conjE exE) simp_all
qed

theorem blocked_iff_reason_and_replacement_fields_witness:
  "build_plan ex_nav ex_lots ex_market [ex_buy] = Inr ex_plan
   \<and> \<not> wash_sale_blocked (items ex_plan ! 1)
   \<and> block_reason (items ex_plan ! 1) = None
   \<and> replacement_symbol (items ex_plan ! 1) \<noteq> None
   \<and> replacement_shares (items ex_plan ! 1) \<noteq> None
   \<and> replacement_price (items ex_plan ! 1) \<noteq> None"
proof -
  have "\<not> wash_sale_blocked (items ex_plan ! 1)" by (simp add: ex_plan_def)
  with blocked_iff_reason_and_replacement_fields [OF build_plan_ex] ex_item_1 build_plan_ex
  show ?thesis by blast
qed

subsection \<open>C2: replacement selection\<close>

text \<open>
  C2, as stated, fails on the share count: the item stores \<open>round(qty, 6)\<close>, not
  \<open>proceeds / replacement_price\<close>. In the example plan the AAPL lot has proceeds 10000 and the
  replacement costs 30000, so the item holds 0.333333 and not 1/3.
\<close>

theorem replacement_shares_counterexample:
  "build_plan ex_nav ex_lots ex_market [ex_buy] = Inr ex_plan
   \<and> \<not> wash_sale_blocked (items ex_plan ! 1)
   \<and> lot_index (items ex_plan ! 1) = 1
   \<and> replacement_price (items ex_plan ! 1) = Some 30000
   \<and> replacement_shares (items ex_plan ! 1)
       \<noteq> Some (shares (ex_lots ! 1) * sale_price (items ex_plan ! 1) / 30000)"
  by (simp add: build_plan_ex) (simp add: ex_plan_def ex_lots_def)

text \<open>
  C2, amended: for every emitted item whose lot no recent buy blocks, \<open>build_plan\<close> goes through
  \<open>safe_alternatives\<close> of the lot's symbol in order and picks the first alternative whose
  market price is known and greater than 0.01, with
  \<open>replacement_shares = round(proceeds / replacement_price, 6)\<close> where
  \<open>proceeds = shares * sale_price\<close>; if no alternative has a usable price, the item is still
  emitted, blocked, with the reason "No safe replacement with known price".
\<close>

theorem replacement_selection:
  assumes "build_plan nav lots market buys = Inr plan" and "it \<in> set (items plan)"
    and "\<forall>rb\<in>set buys. \<not> in_window (cluster_for (policy nav) (it_symbol it)) (asof market) rb"
  shows "(\<exists>pre a post rp.
            safe_alternatives (policy nav) (it_symbol it) = pre @ a # post
            \<and> (\<forall>b\<in>set pre. \<not> usable market b)
            \<and> price market a = Some rp \<and> 1 / 100 < rp
            \<and> \<not> wash_sale_blocked it
            \<and> replacement_symbol it = Some a
            \<and> replacement_price it = Some rp
            \<and> replacement_shares it = Some (round_py (proceeds_of lots it / rp) 6))
         \<or> ((\<forall>b\<in>set (safe_alternatives (policy nav) (it_symbol it)). \<not> usable market b)
            \<and> wash_sale_blocked it
            \<and> block_reason it = Some No_safe_replacement
            \<and> replacement_symbol it = None \<and> replacement_shares it = None
            \<and> replacement_price it = None)"
proof -
  from item_source [OF assms(1,2)] obtain dl dc where
    e: "emit nav market buys (asof market) (lot_index it, lots ! lot_index it) = Some (it, dl, dc)"
    by blast
  note s = emit_fields(4) [OF e]
  let ?W = "in_window (cluster_for (policy nav) (it_symbol it)) (asof market)"
  let ?alts = "safe_alternatives (policy nav) (it_symbol it)"
  from emit_decision [OF e, folded s] consider
    (recent) pre rb post where "buys = pre @ rb # post" "?W rb"
    | (none) "\<forall>b\<in>set ?alts. \<not> usable market b" "wash_sale_blocked it"
      "block_reason it = Some No_safe_replacement" "replacement_symbol it = None"
      "replacement_shares it = None" "replacement_price it = None"
    | (picked) pre a post rp where "?alts = pre @ a # post" "\<forall>b\<in>set pre. \<not> usable market b"
      "price market a = Some rp" "1 / 100 < rp" "\<not> wash_sale_blocked it"
      "replacement_symbol it = Some a" "replacement_price it = Some rp"
      "replacement_shares it = Some (round_py (shares (lots ! lot_index it) * sale_price it / rp) 6)"
    by (elim disjE conjE exE) blast+
  then show ?thesis
  proof cases
    case recent
    with assms(3) show ?thesis by auto
  next
    case none
    then show ?thesis by blast
  next
    case picked
    then show ?thesis unfolding proceeds_of_def by blast
  qed
qed

theorem replacement_selection_witness:
  "build_plan ex_nav ex_lots ex_market [ex_buy] = Inr ex_plan
   \<and> items ex_plan ! 1 \<in> set (items ex_plan)
   \<and> \<not> in_window (cluster_for (policy ex_nav) (it_symbol (items ex_plan ! 1))) (asof ex_market) ex_buy
   \<and> \<not> wash_sale_blocked (items ex_plan ! 1)
   \<and> replacement_price (items ex_plan ! 1) = Some 30000
   \<and> replacement_shares (items ex_plan ! 1)
       = Some (round_py (proceeds_of ex_lots (items ex_plan ! 1) / 30000) 6)"
proof -
  have w: "\<forall>rb\<in>set [ex_buy].
      \<not> in_window (cluster_for (policy ex_nav) (it_symbol (items ex_plan ! 1))) (asof ex_market) rb"
    by (simp add: in_window_def ex_plan_def ex_buy_def ex_nav_def demo_policy_def cluster_for_def)
  have n: "\<not> wash_sale_blocked (items ex_plan ! 1)" "replacement_price (items ex_plan ! 1) = Some 30000"
    by (simp_all add: ex_plan_def)
  from replacement_selection [OF build_plan_ex ex_item_1 w] n
  have "replacement_shares (items ex_plan ! 1)
       = Some (round_py (proceeds_of ex_lots (items ex_plan ! 1) / 30000) 6)"
    by auto
  with w n build_plan_ex ex_item_1 show ?thesis by simp
qed

subsection \<open>C3: what the totals accumulate\<close>

text \<open>
  C3 describes \<open>total_harvestable_loss\<close> as the code computes it: the sum over the non-blocked
  items of \<open>loss_dollars\<close>, rounded when the item is built (lemma \<open>build_plan_loss_sum\<close>). For
  \<open>simulated_cash_delta\<close> the code does not do what C3 says: where the line before adds the
  rounded \<open>item.loss_dollars\<close>, the cash delta is accumulated from the unrounded locals
  \<open>proceeds\<close> and \<open>repl_shares * repl_price\<close>, that is from \<open>proceeds - (proceeds / px) * px\<close>,
  which in exact arithmetic is 0 for every plan (lemma \<open>build_plan_cash_zero\<close>).
  \<open>item_cash_delta\<close> follows the words of C3: sale proceeds minus replacement cost, both
  computed from the fields of the item, which are the values rounded when the item is built.
  C3, cash delta, at the example input: the only non-blocked item has \<open>item_cash_delta\<close> 0.01,
  so C3 gives a cash delta of 0.01, and the plan that \<open>build_plan\<close> returns has
  \<open>simulated_cash_delta\<close> 0.
\<close>

theorem cash_delta_not_sum_of_rounded_items:
  "build_plan ex_nav ex_lots ex_market [ex_buy] = Inr ex_plan
   \<and> filter (\<lambda>it. \<not> wash_sale_blocked it) (items ex_plan) = [items ex_plan ! 1]
   \<and> item_cash_delta (items ex_plan ! 1) = 1 / 100
   \<and> simulated_cash_delta ex_plan = 0
   \<and> simulated_cash_delta ex_plan
       \<noteq> sum_list (map item_cash_delta (filter (\<lambda>it. \<not> wash_sale_blocked it) (items ex_plan)))"
  by (simp add: build_plan_ex) (simp add: ex_plan_def item_cash_delta_def)


subsection \<open>C4: the validation pass\<close>

text \<open>
  C4, as stated, fails in its conclusion that \<open>build_plan\<close> always returns: building an item
  can raise before the validation pass. A lot with negative shares and a negative dollar
  threshold reaches the \<open>loss_dollars >= 0\<close> validator of \<open>HarvestItem\<close>, and an as-of date in
  December 9999 makes \<open>today + timedelta(days=31)\<close> overflow.
\<close>

theorem build_plan_aborts_counterexample:
  "build_plan neg_nav [neg_lot] ex_market [] = Inl (ValidationError ''loss_dollars must be >= 0'')
   \<and> date_min \<le> asof far_market \<and> asof far_market \<le> date_max
   \<and> build_plan ex_nav ex_lots far_market [ex_buy] = Inl OverflowError"
  by (simp add: build_plan_neg build_plan_far)
     (simp add: far_market_def date_min_def date_max_def)

text \<open>
  C4, amended: for every input, the validation pass of \<open>build_plan\<close> never fails, that is,
  neither "Replacement is substantially identical" nor "Re-entry date violates 31-day rule"
  (nor any other \<open>ValueError\<close> of \<open>build_plan\<close>) is raised; and \<open>build_plan\<close> returns a plan
  whenever the as-of date plus 31 days is a valid date and the dollar threshold is
  non-negative or no lot has negative shares.
\<close>

theorem validation_never_fails:
  "(\<forall>msg. build_plan nav lots market buys \<noteq> Inl (ValueError msg))
   \<and> (date_min \<le> asof market + 31 \<and> asof market + 31 \<le> date_max
        \<and> (0 \<le> min_loss_dollars nav \<or> (\<forall>lot\<in>set lots. 0 \<le> shares lot))
      \<longrightarrow> (\<exists>plan. build_plan nav lots market buys = Inr plan))"
proof (intro conjI allI impI)
  fix msg
  show "build_plan nav lots market buys \<noteq> Inl (ValueError msg)"
    using build_plan_Inl [of nav lots market buys "ValueError msg"] by auto
next
  assume a: "date_min \<le> asof market + 31 \<and> asof market + 31 \<le> date_max
        \<and> (0 \<le> min_loss_dollars nav \<or> (\<forall>lot\<in>set lots. 0 \<le> shares lot))"
  let ?E = "emitted nav market buys (asof market) (enumerate 0 lots)"
  have "\<forall>r\<in>set ?E. 0 \<le> loss_dollars (fst r)"
  proof
    fix r assume "r \<in> set ?E"
    then obtain i where i: "i < length lots"
      and e: "emit nav market buys (asof market) (i, lots ! i) = Some r"
      by (auto simp: emitted_member)
    obtain it dl dc where r: "r = (it, dl, dc)" by (cases r)
    note f = emit_fields(2,7) [OF e [unfolded r]]
    have "0 \<le> loss_total (lots ! i) (sale_price it)"
    proof (cases "0 \<le> min_loss_dollars nav")
      case True
      with f(1) show ?thesis by simp
    next
      case False
      with a i have "0 \<le> shares (lots ! i)" by auto
      then show ?thesis by (rule loss_total_nonneg)
    qed
    then show "0 \<le> loss_dollars (fst r)"
      by (simp add: r f(2) round_py_nonneg)
  qed
  with a have "\<exists>st'. build_plan_loop nav market buys (asof market) (enumerate 0 lots) ([], 0, 0) = Inr st'"
    by (intro build_plan_loop_returns) auto
  then show "\<exists>plan. build_plan nav lots market buys = Inr plan"
    by (auto simp: build_plan_cases)
qed

theorem validation_never_fails_witness:
  "date_min \<le> asof ex_market + 31 \<and> asof ex_market + 31 \<le> date_max
   \<and> 0 \<le> min_loss_dollars ex_nav
   \<and> (\<exists>plan. build_plan ex_nav ex_lots ex_market [ex_buy] = Inr plan)
   \<and> build_plan ex_nav ex_lots ex_market [ex_buy]
       \<noteq> Inl (ValueError ''Replacement is substantially identical'')
   \<and> build_plan ex_nav ex_lots ex_market [ex_buy]
       \<noteq> Inl (ValueError ''Re-entry date violates 31-day rule'')"
proof -
  have h: "date_min \<le> asof ex_market + 31" "asof ex_market + 31 \<le> date_max"
    "0 \<le> min_loss_dollars ex_nav"
    by (simp_all add: date_min_def date_max_def ex_market_def ex_nav_def)
  with validation_never_fails [of ex_nav ex_lots ex_market "[ex_buy]"] show ?thesis
    by blast
qed

subsection \<open>C5: which lots produce an item\<close>



subsection \<open>C6: safe alternatives\<close>

text \<open>
  C6: \<open>safe_alternatives pol s\<close> takes the list keyed on \<open>s\<close> when that list is non-empty;
  otherwise the list of the first entry, in insertion order, whose key \<open>s'\<close> has \<open>s\<close> in
  \<open>cluster_for s'\<close>; otherwise nothing. In each case the alternatives lying in the cluster of
  \<open>s\<close> are filtered out, and the result, possibly empty, is a list and never an error.
\<close>

theorem safe_alternatives_lookup:
  "(\<forall>lst. map_of (recommended_alternatives pol) s = Some lst \<and> lst \<noteq> []
      \<longrightarrow> safe_alternatives pol s = filter (\<lambda>a. a \<notin> cluster_for pol s) lst)
   \<and> (\<forall>pre s' lst post.
        (map_of (recommended_alternatives pol) s = None
           \<or> map_of (recommended_alternatives pol) s = Some [])
        \<and> recommended_alternatives pol = pre @ (s', lst) # post
        \<and> (\<forall>e\<in>set pre. s \<notin> cluster_for pol (fst e))
        \<and> s \<in> cluster_for pol s'
      \<longrightarrow> safe_alternatives pol s = filter (\<lambda>a. a \<notin> cluster_for pol s) lst)
   \<and> ((map_of (recommended_alternatives pol) s = None
           \<or> map_of (recommended_alternatives pol) s = Some [])
        \<and> (\<forall>e\<in>set (recommended_alternatives pol). s \<notin> cluster_for pol (fst e))
      \<longrightarrow> safe_alternatives pol s = [])
   \<and> (\<forall>a\<in>set (safe_alternatives pol s). a \<notin> cluster_for pol s)"
proof (intro conjI allI impI ballI)
  fix lst
  assume "map_of (recommended_alternatives pol) s = Some lst \<and> lst \<noteq> []"
  then show "safe_alternatives pol s = filter (\<lambda>a. a \<notin> cluster_for pol s) lst"
    by (simp add: safe_alternatives_def Let_def)
next
  fix pre s' lst post
  assume a: "(map_of (recommended_alternatives pol) s = None
           \<or> map_of (recommended_alternatives pol) s = Some [])
        \<and> recommended_alternatives pol = pre @ (s', lst) # post
        \<and> (\<forall>e\<in>set pre. s \<notin> cluster_for pol (fst e))
        \<and> s \<in> cluster_for pol s'"
  from a have eq: "recommended_alternatives pol = pre @ (s', lst) # post" by blast
  from a have d: "map_of (recommended_alternatives pol) s = None
      \<or> map_of (recommended_alternatives pol) s = Some []" by blast
  then have m: "(case map_of (recommended_alternatives pol) s of None \<Rightarrow> [] | Some l \<Rightarrow> l) = []"
    by auto
  from a have "safe_alternatives_loop pol s (pre @ (s', lst) # post) = lst"
    by (intro safe_alternatives_loop_first) auto
  then have l: "safe_alternatives_loop pol s (recommended_alternatives pol) = lst"
    unfolding eq .
  show "safe_alternatives pol s = filter (\<lambda>a. a \<notin> cluster_for pol s) lst"
    by (simp add: safe_alternatives_def Let_def m l)
next
  assume a: "(map_of (recommended_alternatives pol) s = None
           \<or> map_of (recommended_alternatives pol) s = Some [])
        \<and> (\<forall>e\<in>set (recommended_alternatives pol). s \<notin> cluster_for pol (fst e))"
  then have l: "safe_alternatives_loop pol s (recommended_alternatives pol) = []"
    by (simp add: safe_alternatives_loop_none)
  from a have "map_of (recommended_alternatives pol) s = None
      \<or> map_of (recommended_alternatives pol) s = Some []" by blast
  then have m: "(case map_of (recommended_alternatives pol) s of None \<Rightarrow> [] | Some l \<Rightarrow> l) = []"
    by auto
  show "safe_alternatives pol s = []"
    by (simp add: safe_alternatives_def Let_def m l)
next
  fix a assume "a \<in> set (safe_alternatives pol s)"
  then show "a \<notin> cluster_for pol s" by (rule safe_alternatives_disjoint)
qed

theorem safe_alternatives_lookup_witness:
  "map_of (recommended_alternatives pair_policy) ''A'' = None
   \<and> recommended_alternatives pair_policy = [(''C'', [''D''])] @ (''B'', [''A'', ''C'']) # []
   \<and> ''A'' \<notin> cluster_for pair_policy ''C''
   \<and> ''A'' \<in> cluster_for pair_policy ''B''
   \<and> safe_alternatives pair_policy ''A'' = [''C'']"
proof -
  have h: "map_of (recommended_alternatives pair_policy) ''A'' = None"
    "recommended_alternatives pair_policy = [(''C'', [''D''])] @ (''B'', [''A'', ''C'']) # []"
    "''A'' \<notin> cluster_for pair_policy ''C''"
    "''A'' \<in> cluster_for pair_policy ''B''"
    by (simp_all add: pair_policy_def cluster_for_def)
  have c: "filter (\<lambda>a. a \<notin> cluster_for pair_policy ''A'') [''A'', ''C''] = [''C'']"
    by (simp add: pair_policy_def cluster_for_def)
  note r = safe_alternatives_lookup [of pair_policy "''A''", THEN conjunct2, THEN conjunct1,
      rule_format, of "[(''C'', [''D''])]" "''B''" "[''A'', ''C'']" "[]"]
  have "safe_alternatives pair_policy ''A'' = filter (\<lambda>a. a \<notin> cluster_for pair_policy ''A'') [''A'', ''C'']"
    by (rule r) (simp add: h)
  with h c show ?thesis by simp
qed

subsection \<open>C8: empty inputs\<close>

text \<open>
  C8, as stated, fails when only the recent-buys list is empty: with the three example lots and
  no recent buy the plan has three items.
\<close>

theorem empty_buys_counterexample:
  "build_plan ex_nav ex_lots ex_market [] = Inr ex_plan_no_buys
   \<and> length (items ex_plan_no_buys) = 3"
  by (simp add: build_plan_ex_no_buys) (simp add: ex_plan_no_buys_def ex_plan_def)

text \<open>
  C8, amended: if the lots list is empty, whatever the recent buys are, \<open>build_plan\<close> returns a
  plan with no items, \<open>total_harvestable_loss\<close> 0, \<open>simulated_cash_delta\<close> 0, and no validator
  failure.
\<close>

theorem empty_lots_empty_plan:
  "build_plan nav [] market buys =
     Inr \<lparr>plan_asof = asof market, items = [], total_harvestable_loss = 0,
          simulated_cash_delta = 0, policy_version = ''demo-1''\<rparr>"
  by (simp add: build_plan_def round_py_def round_half_even_def)

theorem empty_lots_empty_plan_witness:
  "build_plan ex_nav [] ex_market [ex_buy] =
     Inr \<lparr>plan_asof = 739252, items = [], total_harvestable_loss = 0,
          simulated_cash_delta = 0, policy_version = ''demo-1''\<rparr>"
  using empty_lots_empty_plan [of ex_nav ex_market "[ex_buy]"] by (simp add: ex_market_def)

subsection \<open>C10: the whole lot is sold\<close>

text \<open>
  C10: every emitted item belongs to the lot at its \<open>lot_index\<close>; \<open>shares_to_sell\<close> is that
  lot's full share count rounded to 6 decimal places and the sale price is the market price of
  the lot's symbol. Whatever the quotient operation \<open>dv\<close> is, the replacement of a non-blocked
  item is sized from the lot's full shares times that price, and the cash delta is the
  2-decimal rounding of the sum, over the non-blocked items, of these full proceeds minus the
  cost of the replacement sized from them.
\<close>

theorem whole_lot_sale:
  assumes "build_plan_with dv nav lots market buys = Inr plan"
  shows "(\<forall>it\<in>set (items plan).
            lot_index it < length lots
            \<and> it_symbol it = symbol (lots ! lot_index it)
            \<and> shares_to_sell it = round_py (shares (lots ! lot_index it)) 6
            \<and> price market (symbol (lots ! lot_index it)) = Some (sale_price it)
            \<and> (\<not> wash_sale_blocked it \<longrightarrow>
                 (\<exists>rp. replacement_price it = Some rp
                    \<and> replacement_shares it
                        = Some (round_py (dv (shares (lots ! lot_index it) * sale_price it) rp) 6))))
    \<and> simulated_cash_delta plan =
         round_py (sum_list (map
           (\<lambda>it. shares (lots ! lot_index it) * sale_price it
                 - (case replacement_price it of
                      None \<Rightarrow> 0
                    | Some rp \<Rightarrow> dv (shares (lots ! lot_index it) * sale_price it) rp * rp))
           (filter (\<lambda>it. \<not> wash_sale_blocked it) (items plan)))) 2"
  using build_plan_with_Inr [OF assms]
  unfolding sells_whole_lot_def cash_term_with_def proceeds_of_def .

theorem whole_lot_sale_witness:
  "build_plan_with round6_quotient ex_nav ex_lots ex_market [ex_buy] = Inr ex_plan_round6
   \<and> lot_index (items ex_plan ! 1) < length ex_lots
   \<and> shares_to_sell (items ex_plan ! 1) = round_py (shares (ex_lots ! lot_index (items ex_plan ! 1))) 6
   \<and> shares_to_sell (items ex_plan ! 1) = 40
   \<and> simulated_cash_delta ex_plan_round6 =
       round_py (shares (ex_lots ! lot_index (items ex_plan ! 1)) * sale_price (items ex_plan ! 1)
         - (case replacement_price (items ex_plan ! 1) of
              None \<Rightarrow> 0
            | Some rp \<Rightarrow>
                round6_quotient
                  (shares (ex_lots ! lot_index (items ex_plan ! 1)) * sale_price (items ex_plan ! 1)) rp
                * rp)) 2
   \<and> simulated_cash_delta ex_plan_round6 = 1 / 100"
proof -
  have i: "items ex_plan_round6 = items ex_plan" by (simp add: ex_plan_round6_def)
  have f: "filter (\<lambda>it. \<not> wash_sale_blocked it) (items ex_plan) = [items ex_plan ! 1]"
    by (simp add: ex_plan_def)
  have s: "shares_to_sell (items ex_plan ! 1) = 40" by (simp add: ex_plan_def)
  have d: "simulated_cash_delta ex_plan_round6 = 1 / 100" by (simp add: ex_plan_round6_def)
  note w = whole_lot_sale [OF build_plan_with_ex, unfolded i f]
  from w have c: "simulated_cash_delta ex_plan_round6 =
       round_py (shares (ex_lots ! lot_index (items ex_plan ! 1)) * sale_price (items ex_plan ! 1)
         - (case replacement_price (items ex_plan ! 1) of
              None \<Rightarrow> 0
            | Some rp \<Rightarrow>
                round6_quotient
                  (shares (ex_lots ! lot_index (items ex_plan ! 1)) * sale_price (items ex_plan ! 1)) rp
                * rp)) 2"
    by (simp del: One_nat_def)
  from w ex_item_1 have "lot_index (items ex_plan ! 1) < length ex_lots
     \<and> shares_to_sell (items ex_plan ! 1)
         = round_py (shares (ex_lots ! lot_index (items ex_plan ! 1))) 6"
    by blast
  with build_plan_with_ex s c d show ?thesis by blast
qed

end
